theory Spec2Isabelle
  imports Main
begin

section \<open>Link-time plug-in management (linktimeplugin.hpp)\<close>

subsection \<open>Classes, objects, pointers\<close>

text \<open>
  The header is generic in two template parameters: \<^verbatim>\<open>BASE\<close>, the plug-in base class, and
  \<^verbatim>\<open>PLUGIN\<close>, a plug-in class derived from it. A class is identified by a number. A plug-in
  class carries the member alias \<^verbatim>\<open>Base\<close> that usage step 2 of the header asks for
  (\<^verbatim>\<open>public: using Base = x\<close>); \<^verbatim>\<open>Registrar<PLUGIN>\<close> reads it as \<^verbatim>\<open>typename PLUGIN::Base\<close>.
\<close>

type_synonym base_class = nat

record plugin_class =
  class_name :: nat
  Base :: base_class

text \<open>
  Registrar objects are objects of static storage duration (\<^verbatim>\<open>REGISTER_PLUGIN\<close> defines one
  \<^verbatim>\<open>static linktimeplugin::Registrar<x>\<close> per use). Static storage is the list of these
  objects in the order their initialisation starts; the address of an object is its position
  in that list. A registrar object of dynamic type \<^verbatim>\<open>Registrar<PLUGIN>\<close> holds the member
  \<^verbatim>\<open>PLUGIN plugin_\<close>, which is initialised after the base-class subobject.
\<close>

type_synonym addr = nat

record registrar =
  PLUGIN :: plugin_class
  plugin_constructed :: bool

text \<open>
  A value of type \<^verbatim>\<open>BASE*\<close>: the null pointer, or the address of the member \<^verbatim>\<open>plugin_\<close> of the
  registrar object at the given address.
\<close>

datatype pointer = nullptr | plugin_of addr

text \<open>
  The state of the process. \<^verbatim>\<open>RegistrarBase<BASE>::registrars_\<close> is a static data member of a
  class template, so there is one \<^verbatim>\<open>std::unique_ptr<std::vector<RegistrarBase<BASE>*>>\<close> per
  \<^verbatim>\<open>BASE\<close>: \<open>None\<close> is the empty \<^verbatim>\<open>unique_ptr\<close>, \<open>Some v\<close> owns the vector \<open>v\<close> of registrar
  addresses (the only value ever stored is \<^verbatim>\<open>this\<close> of a registrar).
\<close>

record world =
  registrars :: "base_class \<Rightarrow> addr list option"
  statics :: "registrar list"

text \<open>
  The default constructor of \<^verbatim>\<open>std::unique_ptr\<close> is \<^verbatim>\<open>constexpr\<close>: every \<^verbatim>\<open>registrars_\<close> is
  empty before the first dynamic initialisation runs.
\<close>

definition initial_world :: world where
  "initial_world = \<lparr>registrars = (\<lambda>B. None), statics = []\<rparr>"

subsection \<open>Outcomes of a call\<close>

text \<open>
  A call returns, leaves by an exception, or ends the process through \<^verbatim>\<open>std::terminate\<close>.
  \<open>bad_alloc\<close> is what \<^verbatim>\<open>operator new\<close> and a growing \<^verbatim>\<open>std::vector\<close> throw when memory is
  exhausted; \<open>plugin_exception\<close> stands for whatever the default constructor of a plug-in
  class throws.
\<close>

datatype exn = bad_alloc | plugin_exception

datatype 'a result = Returns 'a | Throws exn | Terminates

fun and_then :: "'a result \<Rightarrow> ('a \<Rightarrow> 'b result) \<Rightarrow> 'b result" where
  "and_then (Returns x) f = f x"
| "and_then (Throws e) f = Throws e"
| "and_then Terminates f = Terminates"

text \<open>
  Whether an allocation succeeds is decided outside the program: each allocating operation
  takes the answer as an argument. \<^verbatim>\<open>push_back\<close> is modelled as asking on every call (whether
  a particular call has to grow the storage is left to the library).
\<close>

definition operator_new :: "bool \<Rightarrow> 'a \<Rightarrow> 'a result" where
  "operator_new ok v = (if ok then Returns v else Throws bad_alloc)"

definition push_back :: "bool \<Rightarrow> 'a list \<Rightarrow> 'a \<Rightarrow> 'a list result" where
  "push_back ok v x = (if ok then Returns (v @ [x]) else Throws bad_alloc)"

text \<open>
  Two rules of the language under which the constructor below runs.

  \<^item> A function-try-block of a constructor: when control reaches the end of a handler, the
    exception being handled is rethrown ([except.handle]: ``The currently handled exception is
    rethrown if control reaches the end of a handler of the function-try-block of a
    constructor or destructor''). A handler that leaves by an exception of its own replaces it.

  \<^item> An exception that leaves a function declared \<^verbatim>\<open>noexcept\<close>, or that leaves the
    initialisation of an object with static storage duration, calls \<^verbatim>\<open>std::terminate\<close>.
\<close>

definition ctor_function_try_block :: "'a result \<Rightarrow> (exn \<Rightarrow> unit result) \<Rightarrow> 'a result" where
  "ctor_function_try_block body handler =
     (case body of
        Throws e \<Rightarrow> and_then (handler e) (\<lambda>u. Throws e)
      | Returns x \<Rightarrow> Returns x
      | Terminates \<Rightarrow> Terminates)"

definition terminate_on_escape :: "'a result \<Rightarrow> 'a result" where
  "terminate_on_escape r =
     (case r of Throws e \<Rightarrow> Terminates | Returns x \<Rightarrow> Returns x | Terminates \<Rightarrow> Terminates)"

subsection \<open>Registration: \<^verbatim>\<open>RegistrarBase<BASE>::RegistrarBase()\<close>, lines 39-50\<close>

text \<open>
  The compound statement of the constructor (lines 40-43): if \<^verbatim>\<open>registrars_\<close> is empty, a new
  vector is allocated and \<^verbatim>\<open>registrars_\<close> is reset to it; then \<^verbatim>\<open>this\<close> is pushed to the back
  of the vector \<^verbatim>\<open>registrars_\<close> points to.
\<close>

definition RegistrarBase_body :: "bool \<Rightarrow> bool \<Rightarrow> base_class \<Rightarrow> addr \<Rightarrow> world \<Rightarrow> world result" where
  "RegistrarBase_body new_ok push_ok B this w =
     and_then
       (case registrars w B of
          None \<Rightarrow> and_then (operator_new new_ok [])
                    (\<lambda>v. Returns (v, w\<lparr>registrars := (registrars w)(B \<mapsto> v)\<rparr>))
        | Some v \<Rightarrow> Returns (v, w))
       (\<lambda>(v, w1). and_then (push_back push_ok v this)
                    (\<lambda>v'. Returns (w1\<lparr>registrars := (registrars w1)(B \<mapsto> v')\<rparr>)))"

text \<open>The handler \<^verbatim>\<open>catch(...) { }\<close> of lines 44-50: it holds comments only.\<close>

definition RegistrarBase_handler :: "exn \<Rightarrow> unit result" where
  "RegistrarBase_handler e = Returns ()"

text \<open>\<^verbatim>\<open>RegistrarBase() noexcept try { ... } catch(...) { ... }\<close>\<close>

definition RegistrarBase_ctor :: "bool \<Rightarrow> bool \<Rightarrow> base_class \<Rightarrow> addr \<Rightarrow> world \<Rightarrow> world result" where
  "RegistrarBase_ctor new_ok push_ok B this w =
     terminate_on_escape
       (ctor_function_try_block (RegistrarBase_body new_ok push_ok B this w) RegistrarBase_handler)"

subsection \<open>\<^verbatim>\<open>Registrar<PLUGIN>\<close>, lines 92-99, and \<^verbatim>\<open>REGISTER_PLUGIN\<close>, line 144\<close>

text \<open>
  What the environment decides while one registrar object is initialised: whether \<^verbatim>\<open>new\<close>
  succeeds (if it is called), whether \<^verbatim>\<open>push_back\<close> succeeds, and whether the default
  constructor of the plug-in class completes.
\<close>

record outcomes =
  new_ok :: bool
  push_back_ok :: bool
  plugin_ctor_ok :: bool

text \<open>
  The implicitly defined default constructor of \<^verbatim>\<open>Registrar<PLUGIN>\<close>: the base class
  \<^verbatim>\<open>RegistrarBase<typename PLUGIN::Base>\<close> is constructed first, then the member \<^verbatim>\<open>plugin_\<close>
  is default-initialised. \<open>this\<close> is the address of storage that already exists
  (\<open>REGISTER_PLUGIN\<close> below provides it), so the update of \<open>statics\<close> is in range.
\<close>

definition Registrar_ctor :: "outcomes \<Rightarrow> plugin_class \<Rightarrow> addr \<Rightarrow> world \<Rightarrow> world result" where
  "Registrar_ctor e P this w =
     and_then (RegistrarBase_ctor (new_ok e) (push_back_ok e) (Base P) this w)
       (\<lambda>w1. if plugin_ctor_ok e
              then Returns (w1\<lparr>statics :=
                     (statics w1)[this := \<lparr>PLUGIN = P, plugin_constructed = True\<rparr>]\<rparr>)
              else Throws plugin_exception)"

text \<open>
  \<^verbatim>\<open>#define REGISTER_PLUGIN(x) static linktimeplugin::Registrar<x> x##registrar\<close>: one use
  defines one object with static storage duration. Its initialisation takes the next place in
  static storage and runs the default constructor there.
\<close>

definition REGISTER_PLUGIN :: "outcomes \<Rightarrow> plugin_class \<Rightarrow> world \<Rightarrow> world result" where
  "REGISTER_PLUGIN e P w =
     (let this = length (statics w);
          w0 = w\<lparr>statics := statics w @ [\<lparr>PLUGIN = P, plugin_constructed = False\<rparr>]\<rparr>
      in terminate_on_escape (Registrar_ctor e P this w0))"

text \<open>
  Static initialisation of a linked program: the plug-in classes of its registrar objects, in
  the order the platform initialises them, each with the outcomes the environment gives to
  the object at that address.
\<close>

fun static_init_from :: "(addr \<Rightarrow> outcomes) \<Rightarrow> plugin_class list \<Rightarrow> world \<Rightarrow> world result" where
  "static_init_from env [] w = Returns w"
| "static_init_from env (P # Ps) w =
     and_then (REGISTER_PLUGIN (env (length (statics w))) P w) (static_init_from env Ps)"

definition static_init :: "(addr \<Rightarrow> outcomes) \<Rightarrow> plugin_class list \<Rightarrow> world result" where
  "static_init env prog = static_init_from env prog initial_world"

subsection \<open>Query: \<^verbatim>\<open>RegistrarBase<BASE>::plugins()\<close>, lines 63-73, and \<^verbatim>\<open>plugins<T>()\<close>, lines 114-117\<close>

text \<open>
  \<^verbatim>\<open>typename PLUGIN::Base& operator()() override { return plugin_; }\<close>: a non-const member
  function, so the state is passed through it. \<^verbatim>\<open>&(*r)()\<close> is the address of the member
  \<^verbatim>\<open>plugin_\<close> of the registrar \<^verbatim>\<open>r\<close> points to.
\<close>

definition Registrar_call :: "addr \<Rightarrow> world \<Rightarrow> pointer \<times> world" where
  "Registrar_call this w = (plugin_of this, w)"

text \<open>
  The loop \<^verbatim>\<open>for(auto r : *registrars_) { ret.push_back(&(*r)()); }\<close>. The \<open>n\<close>-th call of
  \<^verbatim>\<open>ret.push_back\<close> (counted from 0, which is the length of \<^verbatim>\<open>ret\<close> at that moment) succeeds
  iff \<open>ok n\<close>. An exception leaves the loop and the function; nothing catches it.
\<close>

fun plugins_loop :: "(nat \<Rightarrow> bool) \<Rightarrow> addr list \<Rightarrow> pointer list \<Rightarrow> world \<Rightarrow> pointer list result \<times> world" where
  "plugins_loop ok [] ret w = (Returns ret, w)"
| "plugins_loop ok (r # rs) ret w =
     (case Registrar_call r w of
        (p, w1) \<Rightarrow>
          (case push_back (ok (length ret)) ret p of
             Returns ret1 \<Rightarrow> plugins_loop ok rs ret1 w1
           | Throws e \<Rightarrow> (Throws e, w1)
           | Terminates \<Rightarrow> (Terminates, w1)))"

definition RegistrarBase_plugins :: "(nat \<Rightarrow> bool) \<Rightarrow> base_class \<Rightarrow> world \<Rightarrow> pointer list result \<times> world" where
  "RegistrarBase_plugins ok B w =
     (case registrars w B of
        None \<Rightarrow> (Returns [], w)
      | Some v \<Rightarrow> plugins_loop ok v [] w)"

definition plugins :: "(nat \<Rightarrow> bool) \<Rightarrow> base_class \<Rightarrow> world \<Rightarrow> pointer list result \<times> world" where
  "plugins ok T w = RegistrarBase_plugins ok T w"

subsection \<open>Observations used in the statements\<close>

text \<open>The entries of the registry of a base class; none while \<^verbatim>\<open>registrars_\<close> is empty.\<close>

definition registry :: "world \<Rightarrow> base_class \<Rightarrow> addr list" where
  "registry w B = (case registrars w B of None \<Rightarrow> [] | Some v \<Rightarrow> v)"


text \<open>
  The addresses of the registrar objects of a program whose plug-in class names \<open>B\<close> as its
  \<^verbatim>\<open>Base\<close>, in initialisation order; \<open>entries n\<close> is the same for a program whose first
  object lies at address \<open>n\<close>.
\<close>

definition registered :: "plugin_class list \<Rightarrow> base_class \<Rightarrow> addr list" where
  "registered prog B = filter (\<lambda>a. Base (prog ! a) = B) [0..<length prog]"

definition entries :: "addr \<Rightarrow> plugin_class list \<Rightarrow> base_class \<Rightarrow> addr list" where
  "entries n Ps B = map fst (filter (\<lambda>(a, P). Base P = B) (enumerate n Ps))"


text \<open>Environments and classes for the concrete runs below.\<close>

definition all_ok :: outcomes where
  "all_ok = \<lparr>new_ok = True, push_back_ok = True, plugin_ctor_ok = True\<rparr>"

definition new_fails :: outcomes where
  "new_fails = \<lparr>new_ok = False, push_back_ok = True, plugin_ctor_ok = True\<rparr>"

definition Circle :: plugin_class where
  "Circle = \<lparr>class_name = 1, Base = 0\<rparr>"

definition Square :: plugin_class where
  "Square = \<lparr>class_name = 2, Base = 0\<rparr>"

definition Mp3 :: plugin_class where
  "Mp3 = \<lparr>class_name = 3, Base = 1\<rparr>"

definition Triangle :: plugin_class where
  "Triangle = \<lparr>class_name = 4, Base = 0\<rparr>"

definition env_all_ok :: "addr \<Rightarrow> outcomes" where
  "env_all_ok a = all_ok"

definition env_new_fails :: "addr \<Rightarrow> outcomes" where
  "env_new_fails a = new_fails"

definition always_ok :: "nat \<Rightarrow> bool" where
  "always_ok n = True"

definition never_ok :: "nat \<Rightarrow> bool" where
  "never_ok n = False"

definition first_two_ok :: "nat \<Rightarrow> bool" where
  "first_two_ok n = (n < 2)"

text \<open>The state after the initialisation of the programs used below.\<close>

definition no_plugins :: "base_class \<Rightarrow> addr list option" where
  "no_plugins B = None"

definition one_circle :: world where
  "one_circle =
     \<lparr>registrars = no_plugins(0 \<mapsto> [0]),
      statics = [\<lparr>PLUGIN = Circle, plugin_constructed = True\<rparr>]\<rparr>"


definition shapes_and_codec :: world where
  "shapes_and_codec =
     \<lparr>registrars = no_plugins(0 \<mapsto> [0, 2], 1 \<mapsto> [1]),
      statics = [\<lparr>PLUGIN = Circle, plugin_constructed = True\<rparr>,
                 \<lparr>PLUGIN = Mp3, plugin_constructed = True\<rparr>,
                 \<lparr>PLUGIN = Square, plugin_constructed = True\<rparr>]\<rparr>"

definition shapes_codec_triangle :: world where
  "shapes_codec_triangle =
     \<lparr>registrars = no_plugins(0 \<mapsto> [0, 2, 3], 1 \<mapsto> [1]),
      statics = [\<lparr>PLUGIN = Circle, plugin_constructed = True\<rparr>,
                 \<lparr>PLUGIN = Mp3, plugin_constructed = True\<rparr>,
                 \<lparr>PLUGIN = Square, plugin_constructed = True\<rparr>,
                 \<lparr>PLUGIN = Triangle, plugin_constructed = True\<rparr>]\<rparr>"

section \<open>Properties\<close>

subsection \<open>The query loop\<close>

lemma plugins_loop_world: "snd (plugins_loop ok rs ret w) = w"
  by (induction rs arbitrary: ret) (simp_all add: Registrar_call_def push_back_def)

lemma plugins_loop_result:
  "fst (plugins_loop ok rs ret w) =
     (if \<forall>i<length rs. ok (length ret + i) then Returns (ret @ map plugin_of rs)
      else Throws bad_alloc)"
proof (induction rs arbitrary: ret)
  case Nil
  show ?case by simp
next
  case (Cons r rs)
  have shift: "(\<forall>i<Suc (length rs). ok (length ret + i)) \<longleftrightarrow>
               ok (length ret) \<and> (\<forall>i<length rs. ok (Suc (length ret + i)))"
    by (auto simp: less_Suc_eq_0_disj)
  show ?case
  proof (cases "ok (length ret)")
    case True
    then show ?thesis
      using Cons.IH [of "ret @ [plugin_of r]"] shift
      by (simp add: Registrar_call_def push_back_def)
  next
    case False
    then show ?thesis
      using shift by (simp add: Registrar_call_def push_back_def)
  qed
qed

lemma plugins_eq:
  "plugins ok T w =
     ((if \<forall>i<length (registry w T). ok i then Returns (map plugin_of (registry w T))
       else Throws bad_alloc), w)"
proof (cases "registrars w T")
  case None
  then show ?thesis
    by (simp add: plugins_def RegistrarBase_plugins_def registry_def)
next
  case (Some v)
  have "plugins ok T w = plugins_loop ok v [] w"
    using Some by (simp add: plugins_def RegistrarBase_plugins_def)
  also have "\<dots> = (fst (plugins_loop ok v [] w), snd (plugins_loop ok v [] w))"
    by simp
  finally show ?thesis
    using Some by (simp add: plugins_loop_result plugins_loop_world registry_def)
qed

subsection \<open>One registration\<close>

lemma RegistrarBase_ctor_eq:
  "RegistrarBase_ctor n p B this w =
     (if (registrars w B = None \<longrightarrow> n) \<and> p
      then Returns (w\<lparr>registrars := (registrars w)(B \<mapsto> registry w B @ [this])\<rparr>)
      else Terminates)"
  by (cases "registrars w B")
     (simp_all add: RegistrarBase_ctor_def RegistrarBase_body_def RegistrarBase_handler_def
        ctor_function_try_block_def terminate_on_escape_def operator_new_def push_back_def
        registry_def)

lemma REGISTER_PLUGIN_eq:
  "REGISTER_PLUGIN e P w =
     (if (registrars w (Base P) = None \<longrightarrow> new_ok e) \<and> push_back_ok e \<and> plugin_ctor_ok e
      then Returns \<lparr>registrars = (registrars w)(Base P \<mapsto> registry w (Base P) @ [length (statics w)]),
                    statics = statics w @ [\<lparr>PLUGIN = P, plugin_constructed = True\<rparr>]\<rparr>
      else Terminates)"
  by (auto simp: REGISTER_PLUGIN_def Registrar_ctor_def RegistrarBase_ctor_eq Let_def
        terminate_on_escape_def registry_def)

subsection \<open>Static initialisation\<close>

lemma static_init_from_Returns:
  assumes "static_init_from env Ps w = Returns w'"
  shows "statics w' = statics w @ map (\<lambda>P. \<lparr>PLUGIN = P, plugin_constructed = True\<rparr>) Ps
       \<and> (\<forall>B. registry w' B = registry w B @ entries (length (statics w)) Ps B)
       \<and> (\<forall>B. registrars w' B = None \<longleftrightarrow> registrars w B = None \<and> (\<forall>P\<in>set Ps. Base P \<noteq> B))"
  using assms
proof (induction Ps arbitrary: w)
  case Nil
  then show ?case by (simp add: entries_def)
next
  case (Cons P Ps)
  let ?e = "env (length (statics w))"
  let ?w1 = "\<lparr>registrars = (registrars w)(Base P \<mapsto> registry w (Base P) @ [length (statics w)]),
              statics = statics w @ [\<lparr>PLUGIN = P, plugin_constructed = True\<rparr>]\<rparr>"
  from Cons.prems have ok: "REGISTER_PLUGIN ?e P w = Returns ?w1"
    by (auto simp: REGISTER_PLUGIN_eq split: if_splits)
  with Cons.prems have rest: "static_init_from env Ps ?w1 = Returns w'"
    by simp
  note IH = Cons.IH [OF rest]
  have reg1: "registry ?w1 B = registry w B @ (if Base P = B then [length (statics w)] else [])" for B
    by (simp add: registry_def)
  show ?case
    using IH by (auto simp: reg1 entries_def registry_def)
qed


lemma entries_0: "entries 0 prog B = registered prog B"
proof -
  have "enumerate 0 prog = map (\<lambda>a. (a, prog ! a)) [0..<length prog]"
    by (simp add: enumerate_eq_zip zip_eq_conv comp_def map_nth)
  then show ?thesis
    by (simp add: entries_def registered_def filter_map comp_def)
qed

lemma static_init_Returns:
  assumes "static_init env prog = Returns w"
  shows "statics w = map (\<lambda>P. \<lparr>PLUGIN = P, plugin_constructed = True\<rparr>) prog"
    and "registry w B = registered prog B"
    and "registrars w B = None \<longleftrightarrow> (\<forall>P\<in>set prog. Base P \<noteq> B)"
  using static_init_from_Returns [OF assms [unfolded static_init_def]]
  by (simp_all add: initial_world_def registry_def entries_0)




lemma set_registered: "set (registered prog B) = {a. a < length prog \<and> Base (prog ! a) = B}"
  by (auto simp: registered_def)

lemma static_init_all_ok:
  assumes "\<forall>a<length (statics w) + length Ps. a \<ge> length (statics w) \<longrightarrow> env a = all_ok"
  shows "\<exists>w'. static_init_from env Ps w = Returns w'"
  using assms
proof (induction Ps arbitrary: w)
  case Nil
  show ?case by simp
next
  case (Cons P Ps)
  have "env (length (statics w)) = all_ok"
    using Cons.prems by simp
  then obtain w1 where w1: "REGISTER_PLUGIN (env (length (statics w))) P w = Returns w1"
    and len: "length (statics w1) = Suc (length (statics w))"
    by (simp add: REGISTER_PLUGIN_eq all_ok_def)
  have "\<exists>w'. static_init_from env Ps w1 = Returns w'"
    using Cons.prems len by (intro Cons.IH) auto
  then show ?case using w1 by simp
qed


lemma REGISTER_PLUGIN_other_base:
  assumes "REGISTER_PLUGIN e P w = Returns w'" and "Base P \<noteq> B"
  shows "registrars w' B = registrars w B"
  using assms by (auto simp: REGISTER_PLUGIN_eq split: if_splits)

corollary static_init_completes:
  assumes "\<forall>a<length prog. env a = all_ok"
  shows "\<exists>w. static_init env prog = Returns w"
  unfolding static_init_def
  by (rule static_init_all_ok) (use assms in \<open>simp add: initial_world_def\<close>)

subsection \<open>Concrete runs\<close>

lemma run_one_circle: "static_init env_all_ok [Circle] = Returns one_circle"
  by (simp add: static_init_def initial_world_def REGISTER_PLUGIN_eq env_all_ok_def all_ok_def
      registry_def one_circle_def Circle_def no_plugins_def fun_eq_iff)


lemma run_shapes_and_codec:
  "static_init env_all_ok [Circle, Mp3, Square] = Returns shapes_and_codec"
  by (simp add: static_init_def initial_world_def REGISTER_PLUGIN_eq env_all_ok_def all_ok_def
      registry_def shapes_and_codec_def Circle_def Mp3_def Square_def no_plugins_def fun_eq_iff)

lemma run_register_triangle:
  "REGISTER_PLUGIN all_ok Triangle shapes_and_codec = Returns shapes_codec_triangle"
  by (simp add: REGISTER_PLUGIN_eq all_ok_def Triangle_def registry_def shapes_and_codec_def
      shapes_codec_triangle_def no_plugins_def numeral_3_eq_3 fun_eq_iff)

lemma query_shapes:
  "plugins always_ok 0 shapes_and_codec = (Returns [plugin_of 0, plugin_of 2], shapes_and_codec)"
  by (simp add: plugins_eq registry_def shapes_and_codec_def no_plugins_def always_ok_def)

lemma query_codec:
  "plugins always_ok 1 shapes_and_codec = (Returns [plugin_of 1], shapes_and_codec)"
  by (simp add: plugins_eq registry_def shapes_and_codec_def no_plugins_def always_ok_def)

section \<open>The claims\<close>

subsection \<open>C1: allocation failure during registration\<close>

text \<open>
  C1 says that a failed allocation of the registry storage during the construction of a
  \<^verbatim>\<open>RegistrarBase\<close> object is swallowed where it occurs, that this one registration is dropped
  silently and that nothing else in the program notices. The comment in the handler says the
  same. The constructor does not do it: its \<^verbatim>\<open>try\<close> is a function-try-block, so the exception
  is rethrown when the empty handler ends, and since the constructor is \<^verbatim>\<open>noexcept\<close> the
  rethrown exception calls \<^verbatim>\<open>std::terminate\<close>. With the first \<^verbatim>\<open>new\<close> failing, the constructor
  ends the process, and so does the static initialisation of a program with one plug-in.
\<close>

theorem registration_alloc_failure_terminates:
  "RegistrarBase_ctor False True 0 0 initial_world = Terminates
   \<and> static_init env_new_fails [Circle] = Terminates"
  by (simp add: RegistrarBase_ctor_def RegistrarBase_body_def RegistrarBase_handler_def
      ctor_function_try_block_def terminate_on_escape_def operator_new_def
      static_init_def REGISTER_PLUGIN_def Registrar_ctor_def Let_def
      initial_world_def env_new_fails_def new_fails_def)

subsection \<open>C2: outcomes of the query\<close>

text \<open>
  C2 says that \<^verbatim>\<open>plugins<T>()\<close> has no exception path: in every registry state its only
  outcome is a sequence of references. Counterexample: with one registered plug-in and no
  memory for the result vector, \<^verbatim>\<open>ret.push_back\<close> throws \<^verbatim>\<open>std::bad_alloc\<close>, which nothing
  in \<^verbatim>\<open>plugins\<close> catches.
\<close>

theorem query_bad_alloc_counterexample:
  "static_init env_all_ok [Circle] = Returns one_circle
   \<and> fst (plugins never_ok 0 one_circle) = Throws bad_alloc"
  by (simp add: run_one_circle plugins_def RegistrarBase_plugins_def one_circle_def
      no_plugins_def Registrar_call_def push_back_def never_ok_def)

text \<open>
  C2 as amended: in every registry state the query has two outcomes. It returns one reference
  per registry entry, in registry order, when every \<^verbatim>\<open>push_back\<close> on the result vector
  succeeds (always so when the registry has no entry); otherwise \<^verbatim>\<open>std::bad_alloc\<close> reaches
  the caller. It never ends the process.
\<close>

theorem query_outcomes:
  "fst (plugins ok T w) =
     (if \<forall>i<length (registry w T). ok i then Returns (map plugin_of (registry w T))
      else Throws bad_alloc)"
  by (simp add: plugins_eq)

theorem query_outcomes_witness:
  "fst (plugins always_ok 0 shapes_and_codec) = Returns [plugin_of 0, plugin_of 2]
   \<and> fst (plugins never_ok 0 shapes_and_codec) = Throws bad_alloc
   \<and> fst (plugins never_ok 2 shapes_and_codec) = Returns []"
  using query_outcomes [of always_ok 0 shapes_and_codec]
    query_outcomes [of never_ok 0 shapes_and_codec]
    query_outcomes [of never_ok 2 shapes_and_codec]
  by (auto simp: registry_def shapes_and_codec_def no_plugins_def always_ok_def never_ok_def)

subsection \<open>C3: one reference per registered plug-in\<close>




subsection \<open>C4: repeated queries\<close>

text \<open>
  C4: when a call of \<^verbatim>\<open>plugins<T>()\<close> has returned a sequence of references, a further call
  with no registration in between, started in the state the first call left, returns the
  very same references (whatever the allocator answers, as long as the result vector can be
  built); the state after the calls is the state before them, so no instance is constructed
  again.
\<close>

theorem repeated_queries_same_references:
  assumes "plugins ok1 T w = (Returns refs1, w1)"
    and "\<forall>i<length refs1. ok2 i"
  shows "plugins ok2 T w1 = (Returns refs1, w1) \<and> w1 = w"
proof -
  have w1: "w1 = w"
    using assms(1) by (simp add: plugins_eq)
  have r1: "refs1 = map plugin_of (registry w T)"
    using assms(1) by (auto simp: plugins_eq split: if_splits)
  show ?thesis
    using assms(2) by (simp add: plugins_eq w1 r1)
qed

theorem repeated_queries_same_references_witness:
  "plugins always_ok 0 shapes_and_codec = (Returns [plugin_of 0, plugin_of 2], shapes_and_codec)
   \<and> plugins first_two_ok 0 shapes_and_codec
       = (Returns [plugin_of 0, plugin_of 2], shapes_and_codec)"
proof -
  have ok2: "\<forall>i<length [plugin_of 0, plugin_of 2]. first_two_ok i"
    by (simp add: first_two_ok_def)
  show ?thesis
    using query_shapes repeated_queries_same_references [OF query_shapes ok2] by simp
qed

subsection \<open>C5: no registration, empty result\<close>

text \<open>
  C5: if no plug-in class of the program names \<open>T\<close> as its \<^verbatim>\<open>Base\<close>, the query for \<open>T\<close>
  returns the empty sequence: a normal return, whatever the allocator would do, and the state
  is unchanged.
\<close>

theorem query_without_registration_is_empty:
  assumes "static_init env prog = Returns w"
    and "\<forall>P\<in>set prog. Base P \<noteq> T"
  shows "plugins ok T w = (Returns [], w)"
proof -
  have "registrars w T = None"
    using static_init_Returns(3) [OF assms(1), of T] assms(2) by simp
  then show ?thesis
    by (simp add: plugins_def RegistrarBase_plugins_def)
qed

theorem query_without_registration_is_empty_witness:
  "plugins never_ok 2 shapes_and_codec = (Returns [], shapes_and_codec)"
proof -
  have none: "\<forall>P\<in>set [Circle, Mp3, Square]. Base P \<noteq> 2"
    by (simp add: Circle_def Mp3_def Square_def)
  show ?thesis
    using query_without_registration_is_empty [OF run_shapes_and_codec none] by simp
qed

subsection \<open>C6: order of the result\<close>

text \<open>
  C6: the sequence returned for \<open>T\<close> follows registration order. Its \<open>i\<close>-th reference is the
  plug-in of the \<open>i\<close>-th registrar object constructed for \<open>T\<close>: the registrar addresses behind
  the result are those of the program's objects with \<^verbatim>\<open>Base = T\<close>, in ascending order of
  construction. This is so because a registration appends its entry at the end of the
  registry, and the query walks the registry from front to back.
\<close>

theorem query_order_is_registration_order:
  assumes "static_init env prog = Returns w"
    and "\<forall>i<length (registered prog T). ok i"
  shows "fst (plugins ok T w) = Returns (map plugin_of (registered prog T))
       \<and> sorted_wrt (<) (registered prog T)
       \<and> (REGISTER_PLUGIN e P w = Returns w' \<longrightarrow>
            registry w' (Base P) = registry w (Base P) @ [length (statics w)])"
proof (intro conjI impI)
  show "fst (plugins ok T w) = Returns (map plugin_of (registered prog T))"
    using assms(2) by (simp add: plugins_eq static_init_Returns(2) [OF assms(1)])
  show "sorted_wrt (<) (registered prog T)"
    unfolding registered_def by (rule sorted_wrt_filter) simp
  assume "REGISTER_PLUGIN e P w = Returns w'"
  then show "registry w' (Base P) = registry w (Base P) @ [length (statics w)]"
    by (auto simp: REGISTER_PLUGIN_eq registry_def split: if_splits)
qed

theorem query_order_is_registration_order_witness:
  "fst (plugins always_ok 0 shapes_and_codec) = Returns [plugin_of 0, plugin_of 2]
   \<and> registry shapes_codec_triangle 0 = registry shapes_and_codec 0 @ [3]"
proof -
  have reg: "registered [Circle, Mp3, Square] 0 = [0, 2]"
    by (simp add: registered_def Circle_def Mp3_def Square_def upt_rec)
  have ok: "\<forall>i<length (registered [Circle, Mp3, Square] 0). always_ok i"
    by (simp add: always_ok_def)
  have len: "length (statics shapes_and_codec) = 3" and base: "Base Triangle = 0"
    by (simp_all add: shapes_and_codec_def Triangle_def)
  show ?thesis
    using query_order_is_registration_order [OF run_shapes_and_codec ok,
        of all_ok Triangle shapes_codec_triangle] run_register_triangle
    by (simp add: reg len base)
qed

subsection \<open>C7: registries of distinct base classes\<close>

text \<open>
  C7: registries of distinct base classes are disjoint. After a completed initialisation, the
  result of the query for \<open>B\<close> holds no plug-in registered under another base class; and a
  further registration under another base class leaves \<^verbatim>\<open>registrars_\<close> of \<open>B\<close> and the result of
  the query for \<open>B\<close> unchanged, and its plug-in does not appear in that result.
\<close>

theorem registries_of_distinct_bases_disjoint:
  assumes "static_init env prog = Returns w"
  shows "(fst (plugins ok B w) = Returns refs \<longrightarrow> a < length prog \<longrightarrow> Base (prog ! a) \<noteq> B
            \<longrightarrow> plugin_of a \<notin> set refs)
       \<and> (Base P \<noteq> B \<longrightarrow> REGISTER_PLUGIN e P w = Returns w'
            \<longrightarrow> registrars w' B = registrars w B
              \<and> fst (plugins ok B w') = fst (plugins ok B w)
              \<and> (fst (plugins ok B w') = Returns refs' \<longrightarrow>
                   plugin_of (length (statics w)) \<notin> set refs'))"
proof (intro conjI impI)
  assume "fst (plugins ok B w) = Returns refs" and "a < length prog" and "Base (prog ! a) \<noteq> B"
  then show "plugin_of a \<notin> set refs"
    by (auto simp: plugins_eq static_init_Returns(2) [OF assms] set_registered
        split: if_splits)
next
  assume other: "Base P \<noteq> B" and reg: "REGISTER_PLUGIN e P w = Returns w'"
  show same: "registrars w' B = registrars w B"
    using REGISTER_PLUGIN_other_base [OF reg other] .
  then have same_registry: "registry w' B = registry w B"
    by (simp add: registry_def)
  then show "fst (plugins ok B w') = fst (plugins ok B w)"
    by (simp add: plugins_eq)
  assume "fst (plugins ok B w') = Returns refs'"
  then have "set refs' = plugin_of ` set (registered prog B)"
    by (auto simp: plugins_eq same_registry static_init_Returns(2) [OF assms] split: if_splits)
  moreover have "length (statics w) = length prog"
    by (simp add: static_init_Returns(1) [OF assms])
  ultimately show "plugin_of (length (statics w)) \<notin> set refs'"
    by (auto simp: set_registered)
qed

theorem registries_of_distinct_bases_disjoint_witness:
  "plugin_of 0 \<notin> set [plugin_of 1]
   \<and> registrars shapes_codec_triangle 1 = registrars shapes_and_codec 1
   \<and> fst (plugins always_ok 1 shapes_codec_triangle) = Returns [plugin_of 1]
   \<and> plugin_of 3 \<notin> set [plugin_of 1]"
proof -
  have q: "fst (plugins always_ok 1 shapes_and_codec) = Returns [plugin_of 1]"
    using query_codec by simp
  have a: "(0::nat) < length [Circle, Mp3, Square]" "Base ([Circle, Mp3, Square] ! 0) \<noteq> 1"
    "Base Triangle \<noteq> 1"
    by (simp_all add: Circle_def Triangle_def)
  have len: "length (statics shapes_and_codec) = 3"
    by (simp add: shapes_and_codec_def)
  show ?thesis
    using registries_of_distinct_bases_disjoint [OF run_shapes_and_codec,
        of always_ok 1 "[plugin_of 1]" 0 Triangle all_ok shapes_codec_triangle "[plugin_of 1]"]
      q a run_register_triangle len
    by simp
qed

subsection \<open>C8: entries per concrete plug-in class\<close>




subsection \<open>C9: the query is read-only\<close>

text \<open>
  C9: in every state, and whether it returns or throws, \<^verbatim>\<open>plugins<T>()\<close> leaves the state
  as it was: \<^verbatim>\<open>registrars_\<close> of every base class and every registrar object are unchanged.
\<close>

theorem query_leaves_world_unchanged: "snd (plugins ok T w) = w"
  by (simp add: plugins_eq)

theorem query_leaves_world_unchanged_witness:
  "snd (plugins always_ok 0 shapes_and_codec) = shapes_and_codec
   \<and> snd (plugins never_ok 0 shapes_and_codec) = shapes_and_codec"
  using query_leaves_world_unchanged [of always_ok 0 shapes_and_codec]
    query_leaves_world_unchanged [of never_ok 0 shapes_and_codec]
  by simp

subsection \<open>C10: no null pointer in the result\<close>

text \<open>
  C10: every pointer in the vector that \<^verbatim>\<open>plugins<T>()\<close> returns is non-null: it is the
  address of the member \<^verbatim>\<open>plugin_\<close> that \<^verbatim>\<open>operator()\<close> of a registrar in the registry
  yields.
\<close>

theorem query_pointers_not_null:
  assumes "fst (plugins ok T w) = Returns refs"
  shows "\<forall>p\<in>set refs. p \<noteq> nullptr \<and> (\<exists>r\<in>set (registry w T). p = fst (Registrar_call r w))"
  using assms by (auto simp: plugins_eq Registrar_call_def split: if_splits)

theorem query_pointers_not_null_witness:
  "fst (plugins always_ok 0 shapes_and_codec) = Returns [plugin_of 0, plugin_of 2]
   \<and> plugin_of 0 \<noteq> nullptr \<and> plugin_of 2 \<noteq> nullptr"
proof -
  have q: "fst (plugins always_ok 0 shapes_and_codec) = Returns [plugin_of 0, plugin_of 2]"
    using query_shapes by simp
  show ?thesis
    using q query_pointers_not_null [OF q] by simp
qed

end
